theory Spec2Isabelle
  imports Main
begin

section \<open>Strings\<close>

text \<open>
  The program works on Python \<open>str\<close> values. The model uses \<^typ>\<open>string\<close> and covers
  ASCII text: case conversion changes the letters A to Z and a to z only, and the regular
  expression class \<open>\w\<close> is the ASCII letters, the digits and the underscore. Python's
  Unicode case mapping of other characters is outside the model.
\<close>

definition char_code :: "char \<Rightarrow> nat" where
  "char_code c = of_char c"

definition is_ascii :: "char \<Rightarrow> bool" where
  "is_ascii c = (char_code c < 128)"

definition is_upper :: "char \<Rightarrow> bool" where
  "is_upper c = (65 \<le> char_code c \<and> char_code c \<le> 90)"

definition is_lower :: "char \<Rightarrow> bool" where
  "is_lower c = (97 \<le> char_code c \<and> char_code c \<le> 122)"

definition is_digit :: "char \<Rightarrow> bool" where
  "is_digit c = (48 \<le> char_code c \<and> char_code c \<le> 57)"

definition char_lower :: "char \<Rightarrow> char" where
  "char_lower c = (if is_upper c then char_of (char_code c + 32) else c)"

definition char_upper :: "char \<Rightarrow> char" where
  "char_upper c = (if is_lower c then char_of (char_code c - 32) else c)"

text \<open>\<open>str.lower()\<close> and \<open>str.upper()\<close>.\<close>

definition str_lower :: "string \<Rightarrow> string" where
  "str_lower s = map char_lower s"

definition str_upper :: "string \<Rightarrow> string" where
  "str_upper s = map char_upper s"

text \<open>The characters \<open>str.strip()\<close> removes: those for which \<open>str.isspace()\<close> holds.\<close>

definition is_space :: "char \<Rightarrow> bool" where
  "is_space c = (char_code c \<in> {9, 10, 11, 12, 13, 28, 29, 30, 31, 32})"

definition py_strip :: "string \<Rightarrow> string" where
  "py_strip s = rev (dropWhile is_space (rev (dropWhile is_space s)))"

text \<open>The class \<open>\w\<close> of the regular expressions.\<close>

definition is_word_char :: "char \<Rightarrow> bool" where
  "is_word_char c = (is_upper c \<or> is_lower c \<or> is_digit c \<or> c = CHR ''_'')"

section \<open>Name normalisation\<close>

text \<open>
  \<^verbatim>\<open>
  def normalize_font_name(name):
      normalized = name.lower()
      normalized = re.sub(r'\b(ps|mt|std|pro|light|bold|regular|medium|italic)\b', '', normalized)
      normalized = re.sub(r'[^a-z0-9]', '', normalized)
      return normalized.strip()
  \<close>
\<close>

definition name_parts :: "string list" where
  "name_parts = [''ps'', ''mt'', ''std'', ''pro'', ''light'', ''bold'', ''regular'', ''medium'',
     ''italic'']"

text \<open>
  \<open>\b\<close> holds between two positions when exactly one of the characters on its sides is
  a word character; the start and the end of the text count as non-word.
\<close>

definition word_boundary :: "bool \<Rightarrow> string \<Rightarrow> bool" where
  "word_boundary prev_word rest =
     (prev_word \<noteq> (case rest of [] \<Rightarrow> False | c # _ \<Rightarrow> is_word_char c))"

text \<open>
  The group \<open>(ps|mt|...)\<close> followed by \<open>\b\<close>, tried at the head of the text: the
  alternatives are tried in the order written, and the result is the length of the first
  one that matches with a word boundary after it.
\<close>

fun match_parts :: "string list \<Rightarrow> string \<Rightarrow> nat option" where
  "match_parts [] s = None"
| "match_parts (t # ts) s =
     (if take (length t) s = t \<and> word_boundary (is_word_char (last t)) (drop (length t) s)
      then Some (length t) else match_parts ts s)"

text \<open>
  \<open>re.sub(pattern, '', text)\<close> for the first pattern: the text is scanned from the left;
  where the pattern matches, the match is dropped and the scan goes on behind it (a match
  has \<open>n \<ge> 1\<close> characters: the current one and the next \<open>n - 1\<close>); elsewhere the
  character is kept. The flag says whether the character before the position is a word
  character.
\<close>

fun sub_name_parts :: "bool \<Rightarrow> string \<Rightarrow> string" where
  "sub_name_parts prev_word [] = []"
| "sub_name_parts prev_word (c # cs) =
     (case (if word_boundary prev_word (c # cs) then match_parts name_parts (c # cs) else None) of
        Some n \<Rightarrow> sub_name_parts (is_word_char ((c # cs) ! (n - 1))) (drop (n - 1) cs)
      | None \<Rightarrow> c # sub_name_parts (is_word_char c) cs)"

text \<open>\<open>re.sub(r'[^a-z0-9]', '', text)\<close> keeps the lower-case letters and the digits.\<close>

definition sub_non_alnum :: "string \<Rightarrow> string" where
  "sub_non_alnum s = filter (\<lambda>c. is_lower c \<or> is_digit c) s"

definition normalize_font_name :: "string \<Rightarrow> string" where
  "normalize_font_name name = py_strip (sub_non_alnum (sub_name_parts False (str_lower name)))"

section \<open>Requirement extraction\<close>

text \<open>
  \<^verbatim>\<open>
  def parse_fonts_from_setting(file_path):
      fonts = []
      try:
          with open(file_path, 'r', encoding='utf-8') as f:
              content = f.read()
          matches = re.findall(<font pattern>, content)
          style_matches = re.findall(<style pattern>, content)
          for i, font in enumerate(matches):
              style = style_matches[i] if i < len(style_matches) else "Regular"
              fonts.append((font.strip(), style.strip()))
      except PermissionError: ...
      except UnicodeDecodeError:
          try: (the same with encoding='latin-1')
          except Exception as e: ...
      except Exception as e: ...
      return fonts
  \<close>
  The two patterns are \<open>Font\s*=\s*Input\s*{[^}]*Value\s*=\s*"([^"]+)"[^}]*}\<close> and the same
  with \<open>Style\<close> for \<open>Font\<close>. What \<open>re.findall\<close> extracts for a pattern, and what reading
  the file in an encoding gives, are parameters of the model.
\<close>

datatype pattern = Font_pattern | Style_pattern

datatype read_result = Content string | PermissionError | UnicodeDecodeError | OtherError

text \<open>The loop over \<open>enumerate(matches)\<close>, from index \<open>i\<close> on.\<close>

fun pair_fonts :: "nat \<Rightarrow> string list \<Rightarrow> string list \<Rightarrow> (string \<times> string) list" where
  "pair_fonts i [] style_matches = []"
| "pair_fonts i (font # matches) style_matches =
     (let style = (if i < length style_matches then style_matches ! i else ''Regular'')
      in (py_strip font, py_strip style) # pair_fonts (Suc i) matches style_matches)"

definition extract_fonts :: "(pattern \<Rightarrow> string \<Rightarrow> string list) \<Rightarrow> string \<Rightarrow> (string \<times> string) list" where
  "extract_fonts findall content =
     pair_fonts 0 (findall Font_pattern content) (findall Style_pattern content)"

definition parse_fonts_from_setting ::
  "(pattern \<Rightarrow> string \<Rightarrow> string list) \<Rightarrow> (string \<Rightarrow> read_result) \<Rightarrow> (string \<Rightarrow> read_result) \<Rightarrow>
   string \<Rightarrow> (string \<times> string) list" where
  "parse_fonts_from_setting findall read_utf8 read_latin1 file_path =
     (case read_utf8 file_path of
        Content content \<Rightarrow> extract_fonts findall content
      | PermissionError \<Rightarrow> []
      | UnicodeDecodeError \<Rightarrow>
          (case read_latin1 file_path of
             Content content \<Rightarrow> extract_fonts findall content
           | _ \<Rightarrow> [])
      | OtherError \<Rightarrow> [])"

section \<open>Matching a requirement against the installed fonts\<close>

text \<open>
  \<^verbatim>\<open>
  def is_font_installed(font_name, style, system_fonts, lowercase_map, normalized_map,
                        installed_styles=None):
      found = False; match_type = ""; matched_name = ""
      if font_name in system_fonts:
          found = True; match_type = "exact match"; matched_name = font_name
      elif font_name.lower() in lowercase_map:
          found = True; match_type = f"case-insensitive match"
          matched_name = lowercase_map[font_name.lower()]
      else:
          normalized = normalize_font_name(font_name)
          if normalized in normalized_map:
              found = True; match_type = f"normalized match"
              matched_name = normalized_map[normalized]
      if found and installed_styles is not None:
          font_styles = installed_styles.get(matched_name, [])
          if style in font_styles or "Regular" in font_styles:
              return True, match_type, matched_name, True
          else:
              return True, match_type, matched_name, False
      return found, match_type, matched_name, False
  \<close>
  The result is the tuple the function returns; \<open>installed_styles = None\<close> is \<open>None\<close>.
\<close>

record match_result =
  found :: bool
  match_type :: string
  matched_name :: string
  style_available :: bool

text \<open>\<open>installed_styles.get(matched_name, [])\<close>\<close>

definition get_styles :: "(string \<rightharpoonup> string list) \<Rightarrow> string \<Rightarrow> string list" where
  "get_styles installed_styles name = (case installed_styles name of Some l \<Rightarrow> l | None \<Rightarrow> [])"

definition is_font_installed :: "string \<Rightarrow> string \<Rightarrow> string set \<Rightarrow> (string \<rightharpoonup> string) \<Rightarrow>
    (string \<rightharpoonup> string) \<Rightarrow> (string \<rightharpoonup> string list) option \<Rightarrow> match_result" where
  "is_font_installed font_name style system_fonts lowercase_map normalized_map installed_styles =
     (let (fnd, mtype, mname) =
        (if font_name \<in> system_fonts then (True, ''exact match'', font_name)
         else case lowercase_map (str_lower font_name) of
           Some name \<Rightarrow> (True, ''case-insensitive match'', name)
         | None \<Rightarrow>
            (case normalized_map (normalize_font_name font_name) of
               Some name \<Rightarrow> (True, ''normalized match'', name)
             | None \<Rightarrow> (False, [], [])))
      in case installed_styles of
           Some styles \<Rightarrow>
             if fnd then
               (let font_styles = get_styles styles mname in
                if style \<in> set font_styles \<or> ''Regular'' \<in> set font_styles
                then \<lparr>found = True, match_type = mtype, matched_name = mname,
                       style_available = True\<rparr>
                else \<lparr>found = True, match_type = mtype, matched_name = mname,
                       style_available = False\<rparr>)
             else \<lparr>found = fnd, match_type = mtype, matched_name = mname,
                    style_available = False\<rparr>
         | None \<Rightarrow> \<lparr>found = fnd, match_type = mtype, matched_name = mname,
                      style_available = False\<rparr>)"

text \<open>
  The normalised-name map of \<open>scan_all\<close>:
  \<^verbatim>\<open>
      normalized_map = {}
      for font in system_fonts:
          normalized = normalize_font_name(font)
          if normalized:
              normalized_map[normalized] = font
  \<close>
  \<open>system_fonts\<close> is a Python set; the list is the order in which the loop visits it.
\<close>

fun scan_all_normalized_map :: "string list \<Rightarrow> (string \<rightharpoonup> string) \<Rightarrow> (string \<rightharpoonup> string)" where
  "scan_all_normalized_map [] normalized_map = normalized_map"
| "scan_all_normalized_map (font # fonts) normalized_map =
     (let normalized = normalize_font_name font
      in scan_all_normalized_map fonts
           (if normalized \<noteq> [] then normalized_map(normalized \<mapsto> font) else normalized_map))"

section \<open>The provider chain\<close>

text \<open>
  Each scrape-based provider (\<open>search_1001fonts\<close>, \<open>search_dafont\<close>, \<open>search_freefont\<close>)
  sends requests to its site and returns a download URL or \<open>None\<close>; every error is caught
  inside and gives \<open>None\<close>. What a site answers for a font name is a parameter of the model
  (the record \<open>sites\<close>); a call to a provider is recorded in the list of consulted providers.
\<close>

record sites =
  site_1001fonts :: "string \<Rightarrow> string option"
  site_dafont :: "string \<Rightarrow> string option"
  site_freefont :: "string \<Rightarrow> string option"

definition search_1001fonts :: "sites \<Rightarrow> string \<Rightarrow> string list \<Rightarrow> string option \<times> string list" where
  "search_1001fonts w font_name consulted = (site_1001fonts w font_name, consulted @ [''1001Fonts''])"

definition search_dafont :: "sites \<Rightarrow> string \<Rightarrow> string list \<Rightarrow> string option \<times> string list" where
  "search_dafont w font_name consulted = (site_dafont w font_name, consulted @ [''DaFont''])"

definition search_freefont :: "sites \<Rightarrow> string \<Rightarrow> string list \<Rightarrow> string option \<times> string list" where
  "search_freefont w font_name consulted =
     (site_freefont w font_name, consulted @ [''FreeFonts.io''])"

text \<open>The test \<open>if url:\<close> holds for a string that is not empty.\<close>

definition truthy :: "string option \<Rightarrow> bool" where
  "truthy url = (case url of None \<Rightarrow> False | Some u \<Rightarrow> u \<noteq> [])"

record alt_source =
  url :: string
  source :: string

text \<open>
  \<^verbatim>\<open>
  def search_alternative_font_providers(font_name):
      url = search_1001fonts(font_name)
      if url:
          return {"url": url, "source": "1001Fonts"}
      url = search_dafont(font_name)
      if url:
          return {"url": url, "source": "DaFont"}
      url = search_freefont(font_name)
      if url:
          return {"url": url, "source": "FreeFonts.io"}
      return None
  \<close>
\<close>

definition search_alternative_font_providers ::
  "sites \<Rightarrow> string \<Rightarrow> string list \<Rightarrow> alt_source option \<times> string list" where
  "search_alternative_font_providers w font_name consulted =
     (case search_1001fonts w font_name consulted of (url1, consulted1) \<Rightarrow>
        if truthy url1 then (Some \<lparr>url = the url1, source = ''1001Fonts''\<rparr>, consulted1)
        else case search_dafont w font_name consulted1 of (url2, consulted2) \<Rightarrow>
          if truthy url2 then (Some \<lparr>url = the url2, source = ''DaFont''\<rparr>, consulted2)
          else case search_freefont w font_name consulted2 of (url3, consulted3) \<Rightarrow>
            if truthy url3 then (Some \<lparr>url = the url3, source = ''FreeFonts.io''\<rparr>, consulted3)
            else (None, consulted3))"

text \<open>The order of the chain and the answer of the provider with a given label.\<close>

definition provider_order :: "string list" where
  "provider_order = [''1001Fonts'', ''DaFont'', ''FreeFonts.io'']"

definition site_answer :: "sites \<Rightarrow> string \<Rightarrow> string \<Rightarrow> string option" where
  "site_answer w label font_name =
     (if label = ''1001Fonts'' then site_1001fonts w font_name
      else if label = ''DaFont'' then site_dafont w font_name
      else if label = ''FreeFonts.io'' then site_freefont w font_name
      else None)"

section \<open>The indexed source\<close>

text \<open>
  \<^verbatim>\<open>
  def get_google_fonts_index():
      global GOOGLE_API_KEY, GOOGLE_API_URL
      try:
          api_key = get_google_fonts_api_key()
          response = requests.get(GOOGLE_API_URL)
          response.raise_for_status()
          fonts = response.json().get("items", [])
          return {f["family"]: f for f in fonts}
      except requests.exceptions.HTTPError as e:
          if e.response.status_code == 403:
              new_key = input("... Enter a new Google Fonts API key ...").strip()
              if new_key:
                  GOOGLE_API_KEY = new_key
                  GOOGLE_API_URL = f"https://www.googleapis.com/webfonts/v1/webfonts?key={GOOGLE_API_KEY}"
                  return get_google_fonts_index()  # Try again with new key
          return {}
      except Exception as e:
          return {}
  \<close>
  The two global variables are a record that the function takes and returns. The server is
  a function from the requested URL to its response; \<open>Request_failed\<close> stands for every
  failure that is not an HTTP error status (no connection, a body that is not the expected
  JSON). The lines the user types are a list, and \<open>input()\<close> at its end raises
  \<open>EOFError\<close>, inside the handler, so that it leaves the function. The URLs requested
  are collected in a list.

  \<open>get_google_fonts_api_key()\<close> returns at once when the key is set, which the main
  script has seen to before the scan; the steps it takes otherwise (environment, key file,
  prompt) are not part of the model, which stops with \<open>Key_not_set\<close> there.
\<close>

record globals =
  GOOGLE_API_KEY :: string
  GOOGLE_API_URL :: string

record item =
  item_family :: string
  item_variants :: "string list option"

datatype response = Items "item list" | HTTPError nat | Request_failed

datatype index_result = Index "string \<rightharpoonup> item" | EOFError | Key_not_set

text \<open>\<open>{f["family"]: f for f in fonts}\<close>: a later item replaces an earlier one of the same family.\<close>

fun index_of :: "item list \<Rightarrow> (string \<rightharpoonup> item) \<Rightarrow> (string \<rightharpoonup> item)" where
  "index_of [] index = index"
| "index_of (f # fonts) index = index_of fonts (index(item_family f \<mapsto> f))"

definition api_url :: "string \<Rightarrow> string" where
  "api_url key = ''https://www.googleapis.com/webfonts/v1/webfonts?key='' @ key"

fun get_google_fonts_index ::
  "(string \<Rightarrow> response) \<Rightarrow> globals \<Rightarrow> string list \<Rightarrow> string list \<Rightarrow>
   index_result \<times> globals \<times> string list \<times> string list" where
  "get_google_fonts_index server g stdin requests =
     (if GOOGLE_API_KEY g = [] then (Key_not_set, g, stdin, requests)
      else case server (GOOGLE_API_URL g) of
        Items fonts \<Rightarrow> (Index (index_of fonts Map.empty), g, stdin, requests @ [GOOGLE_API_URL g])
      | Request_failed \<Rightarrow> (Index Map.empty, g, stdin, requests @ [GOOGLE_API_URL g])
      | HTTPError status \<Rightarrow>
          if status = 403 then
            (case stdin of
               [] \<Rightarrow> (EOFError, g, [], requests @ [GOOGLE_API_URL g])
             | line # rest \<Rightarrow>
                 (let new_key = py_strip line in
                  if new_key \<noteq> [] then
                    get_google_fonts_index server
                      (g\<lparr>GOOGLE_API_KEY := new_key, GOOGLE_API_URL := api_url new_key\<rparr>)
                      rest (requests @ [GOOGLE_API_URL g])
                  else (Index Map.empty, g, rest, requests @ [GOOGLE_API_URL g])))
          else (Index Map.empty, g, stdin, requests @ [GOOGLE_API_URL g]))"

text \<open>
  The equation of the function calls the function again, so it is applied where a proof
  asks for it and not by the simplifier on its own.
\<close>

declare get_google_fonts_index.simps [simp del]

text \<open>
  In \<open>scan_all\<close>, a missing family is taken from the index when it is a key there, and
  looked for in the provider chain otherwise:
  \<^verbatim>\<open>
      if font in google_fonts_index:
          available_variants = get_available_variants(font, google_fonts_index)
          to_download[font] = {..., "variants": available_variants, "source": "Google Fonts", ...}
      else:
          alt_source = search_alternative_font_providers(font)
          if alt_source: alternative_sources[font] = {..., "alt_source": alt_source, ...}
          else: unavailable.append((font, styles))
  \<close>
\<close>

text \<open>
  \<^verbatim>\<open>
  def get_available_variants(font_family, google_fonts_index):
      if font_family in google_fonts_index:
          return google_fonts_index[font_family].get("variants", ["regular"])
      return []
  \<close>
\<close>

definition get_available_variants :: "string \<Rightarrow> (string \<rightharpoonup> item) \<Rightarrow> string list" where
  "get_available_variants font_family google_fonts_index =
     (case google_fonts_index font_family of
        Some f \<Rightarrow> (case item_variants f of Some vs \<Rightarrow> vs | None \<Rightarrow> [''regular''])
      | None \<Rightarrow> [])"

datatype resolution = To_download "string list" | Alternative alt_source | Unavailable

definition resolve_missing ::
  "(string \<rightharpoonup> item) \<Rightarrow> sites \<Rightarrow> string \<Rightarrow> string list \<Rightarrow> resolution \<times> string list" where
  "resolve_missing google_fonts_index w font consulted =
     (case google_fonts_index font of
        Some f \<Rightarrow> (To_download (get_available_variants font google_fonts_index), consulted)
      | None \<Rightarrow>
         (case search_alternative_font_providers w font consulted of
            (Some alt, consulted') \<Rightarrow> (Alternative alt, consulted')
          | (None, consulted') \<Rightarrow> (Unavailable, consulted')))"

section \<open>Acquisition\<close>

text \<open>
  A file's content is a list of bytes, written as characters. The file system is a list
  of paths with their contents, one entry for each path. Directories are not modelled:
  whether a file can be created at a path (its directory exists and may be written) is a
  predicate \<open>writable\<close> that the download functions take, and opening a path for writing
  where it does not hold raises.
\<close>

type_synonym bytes = "char list"

type_synonym fs = "(string \<times> bytes) list"

definition fs_read :: "fs \<Rightarrow> string \<Rightarrow> bytes option" where
  "fs_read files path = map_of files path"

definition fs_unlink :: "string \<Rightarrow> fs \<Rightarrow> fs" where
  "fs_unlink path files = filter (\<lambda>(p, _). p \<noteq> path) files"

definition fs_write :: "string \<Rightarrow> bytes \<Rightarrow> fs \<Rightarrow> fs" where
  "fs_write path content files = (path, content) # fs_unlink path files"

definition path_join :: "string \<Rightarrow> string \<Rightarrow> string" where
  "path_join dir name = dir @ ''/'' @ name"

definition TEMP_DIR :: string where
  "TEMP_DIR = ''temp''"

definition fonts_dir :: string where
  "fonts_dir = path_join TEMP_DIR ''fonts''"

definition ends_with :: "string \<Rightarrow> string \<Rightarrow> bool" where
  "ends_with suffix s = (take (length suffix) (rev s) = rev suffix)"

definition starts_with :: "bytes \<Rightarrow> bytes \<Rightarrow> bool" where
  "starts_with prefix s = (take (length prefix) s = prefix)"

text \<open>\<open>dir.rglob("*.[ot]tf")\<close>: the files below \<open>dir\<close> whose name ends in \<open>.otf\<close> or \<open>.ttf\<close>.\<close>

definition is_font_path :: "string \<Rightarrow> string \<Rightarrow> bool" where
  "is_font_path dir path =
     (starts_with (dir @ ''/'') path \<and> (ends_with ''.otf'' path \<or> ends_with ''.ttf'' path))"

definition rglob_fonts :: "string \<Rightarrow> fs \<Rightarrow> (string \<times> bytes) list" where
  "rglob_fonts dir files = filter (\<lambda>(p, _). is_font_path dir p) files"

text \<open>
  What \<open>zipfile\<close> makes of a downloaded file, in the block
  \<^verbatim>\<open>
      with zipfile.ZipFile(download_path, 'r') as zip_ref:
          zip_ref.extractall(fonts_dir)
  \<close>
  Either all members are extracted, or \<open>BadZipFile\<close> is raised, or another exception is
  raised (an encrypted member, a member that cannot be written). An exception can come
  after some members have been written: each outcome carries the members written, in the
  order written. \<open>BadZipFile\<close> on opening a file that is no archive at all has written
  none.
\<close>

datatype zip_outcome =
    Extracted "(string \<times> bytes) list"
  | BadZipFile "(string \<times> bytes) list"
  | Zip_error "(string \<times> bytes) list"

text \<open>The members written by \<open>zip_ref.extractall(dir)\<close>.\<close>

fun extractall :: "string \<Rightarrow> (string \<times> bytes) list \<Rightarrow> fs \<Rightarrow> fs" where
  "extractall dir [] files = files"
| "extractall dir ((name, content) # members) files =
     extractall dir members (fs_write (path_join dir name) content files)"

definition OTTO :: bytes where
  "OTTO = ''OTTO''"

definition TRUETYPE :: bytes where
  "TRUETYPE = [CHR 0x00, CHR 0x01, CHR 0x00, CHR 0x00]"

text \<open>
  \<^verbatim>\<open>
  def download_google_font(family, style_info, variants=None):
      ...
      url = f"https://fonts.google.com/download?family={family.replace(' ', '+')}"
      try:
          r = requests.get(url, stream=True)
          r.raise_for_status()
          download_path = TEMP_DIR / f"{family}.download"
          with open(download_path, 'wb') as f: (write the payload)
          try:
              with zipfile.ZipFile(download_path, 'r') as zip_ref:
                  zip_ref.extractall(fonts_dir)
                  ...
          except zipfile.BadZipFile:
              with open(download_path, 'rb') as f:
                  header = f.read(4)
              ext = '.ttf'  # Default
              if header.startswith(b'OTTO'):  # OpenType font
                  ext = '.otf'
              elif header.startswith(b'\x00\x01\x00\x00'):  # TrueType font
                  ext = '.ttf'
              font_path = fonts_dir / f"{family}{ext}"
              shutil.copy(download_path, font_path)
              ...
          download_path.unlink()
          return True
      except Exception as e:
          return False
  \<close>
  The request is a function from the URL to the payload, \<open>None\<close> when the request or its
  status check raises. Every exception inside the outer \<open>try\<close> ends in \<open>return False\<close>,
  with the files written until then left in place. The header is read from the downloaded
  file, and the downloaded file is what is copied. The style and the variants do not
  appear: the variant computed from them is not used in the rest of the function.
\<close>

definition replace_spaces :: "string \<Rightarrow> string" where
  "replace_spaces s = map (\<lambda>c. if c = CHR '' '' then CHR ''+'' else c) s"

definition download_google_font ::
  "(string \<Rightarrow> bytes option) \<Rightarrow> (bytes \<Rightarrow> zip_outcome) \<Rightarrow> (string \<Rightarrow> bool) \<Rightarrow> string \<Rightarrow> fs \<Rightarrow>
   bool \<times> fs" where
  "download_google_font http_get zipfile writable family files =
     (case http_get (''https://fonts.google.com/download?family='' @ replace_spaces family) of
        None \<Rightarrow> (False, files)
      | Some payload \<Rightarrow>
         (let download_path = path_join TEMP_DIR (family @ ''.download'')
          in if \<not> writable download_path then (False, files)
             else
               (let files1 = fs_write download_path payload files
                in case zipfile payload of
                  Extracted members \<Rightarrow>
                    (True, fs_unlink download_path (extractall fonts_dir members files1))
                | Zip_error members \<Rightarrow> (False, extractall fonts_dir members files1)
                | BadZipFile members \<Rightarrow>
                    (let files2 = extractall fonts_dir members files1
                     in case fs_read files2 download_path of
                       None \<Rightarrow> (False, files2)
                     | Some data \<Rightarrow>
                        (let header = take 4 data;
                             ext = (if starts_with OTTO header then ''.otf''
                                    else if starts_with TRUETYPE header then ''.ttf''
                                    else ''.ttf'');
                             font_path = path_join fonts_dir (family @ ext)
                         in if \<not> writable font_path then (False, files2)
                            else (True, fs_unlink download_path
                                          (fs_write font_path data files2)))))))"

text \<open>
  \<^verbatim>\<open>
  def download_font_from_alternative_source(font_info, style_info):
      font_name = font_info["name"]
      source_info = font_info["alt_source"]
      source_name = source_info["source"]
      download_url = source_info["url"]
      ...
      try:
          download_path = TEMP_DIR / f"{font_name}_{source_name}.zip"
          resp = alt_session.get(download_url, headers=get_headers(), stream=True, timeout=30)
          resp.raise_for_status()
          with open(download_path, 'wb') as f: (write the payload)
          try:
              with zipfile.ZipFile(download_path, 'r') as zip_ref:
                  zip_ref.extractall(fonts_dir)
                  font_files = list(fonts_dir.rglob("*.[ot]tf"))
                  if font_files: ...
                  else:
                      return False
          except zipfile.BadZipFile:
              with open(download_path, 'rb') as f:
                  header = f.read(4)
              is_font = False
              if header.startswith(b'OTTO') or header.startswith(b'\x00\x01\x00\x00'):
                  is_font = True
                  ext = '.otf' if header.startswith(b'OTTO') else '.ttf'
                  font_path = fonts_dir / f"{font_name}{ext}"
                  shutil.copy(download_path, font_path)
              if not is_font:
                  return False
          download_path.unlink()
          return True
      except Exception as e:
          return False
  \<close>
\<close>

definition download_font_from_alternative_source ::
  "(string \<Rightarrow> bytes option) \<Rightarrow> (bytes \<Rightarrow> zip_outcome) \<Rightarrow> (string \<Rightarrow> bool) \<Rightarrow> string \<Rightarrow>
   alt_source \<Rightarrow> fs \<Rightarrow> bool \<times> fs" where
  "download_font_from_alternative_source http_get zipfile writable font_name source_info files =
     (let download_path = path_join TEMP_DIR (font_name @ ''_'' @ source source_info @ ''.zip'')
      in case http_get (url source_info) of
        None \<Rightarrow> (False, files)
      | Some payload \<Rightarrow>
         if \<not> writable download_path then (False, files)
         else
           (let files1 = fs_write download_path payload files
            in case zipfile payload of
              Extracted members \<Rightarrow>
                (let files2 = extractall fonts_dir members files1
                 in if rglob_fonts fonts_dir files2 \<noteq> []
                    then (True, fs_unlink download_path files2)
                    else (False, files2))
            | Zip_error members \<Rightarrow> (False, extractall fonts_dir members files1)
            | BadZipFile members \<Rightarrow>
                (let files2 = extractall fonts_dir members files1
                 in case fs_read files2 download_path of
                   None \<Rightarrow> (False, files2)
                 | Some data \<Rightarrow>
                    (let header = take 4 data
                     in if starts_with OTTO header \<or> starts_with TRUETYPE header
                        then
                          (let ext = (if starts_with OTTO header then ''.otf'' else ''.ttf'');
                               font_path = path_join fonts_dir (font_name @ ext)
                           in if \<not> writable font_path then (False, files2)
                              else (True, fs_unlink download_path
                                            (fs_write font_path data files2)))
                        else (False, files2)))))"

section \<open>Installation\<close>

text \<open>
  \<^verbatim>\<open>
  def is_variable_font(font_path):
      try:
          try:
              from fontTools.ttLib import TTFont
              font = TTFont(font_path)
              return 'fvar' in font
          except ImportError:
              with open(font_path, 'rb') as f:
                  data = f.read()
                  return b'fvar' in data
      except Exception:
          return False
  \<close>
  The font library is a parameter: \<open>None\<close> when it cannot be imported, and otherwise a
  function from the data of a file to whether the parsed font has the table, \<open>None\<close> when
  parsing raises.
\<close>

fun contains_bytes :: "bytes \<Rightarrow> bytes \<Rightarrow> bool" where
  "contains_bytes pat [] = (pat = [])"
| "contains_bytes pat (b # bs) = (starts_with pat (b # bs) \<or> contains_bytes pat bs)"

definition is_variable_font :: "(bytes \<Rightarrow> bool option) option \<Rightarrow> bytes \<Rightarrow> bool" where
  "is_variable_font fontTools data =
     (case fontTools of
        Some has_fvar \<Rightarrow> (case has_fvar data of Some b \<Rightarrow> b | None \<Rightarrow> False)
      | None \<Rightarrow> contains_bytes ''fvar'' data)"

text \<open>
  \<^verbatim>\<open>
  def install_fonts_from_temp(replace_existing=False):
      fonts_path = TEMP_DIR / "fonts"
      installed_count = 0; replaced_count = 0; variable_count = 0; skipped_count = 0
      for font_file in fonts_path.rglob("*.[ot]tf"):
          is_variable = is_variable_font(font_file)
          dest_path = Path.home() / "Library" / "Fonts" / font_file.name
          if dest_path.exists() and not (replace_existing or is_variable):
              skipped_count += 1
              continue
          elif dest_path.exists():
              replaced_count += 1
          else:
              installed_count += 1
          shutil.copy(font_file, dest_path)
          if is_variable:
              variable_count += 1
      (print the four counts)
  \<close>
  The destination directory is a map from file names to contents. The model returns it
  with the four counters.
\<close>

record counts =
  installed_count :: nat
  replaced_count :: nat
  variable_count :: nat
  skipped_count :: nat

text \<open>\<open>font_file.name\<close>: the part of the path behind its last separator.\<close>

definition path_name :: "string \<Rightarrow> string" where
  "path_name path = rev (takeWhile (\<lambda>c. c \<noteq> CHR ''/'') (rev path))"

text \<open>The body of the loop, for one staged file.\<close>

definition install_font ::
  "(bytes \<Rightarrow> bool option) option \<Rightarrow> bool \<Rightarrow> string \<times> bytes \<Rightarrow> (string \<rightharpoonup> bytes) \<times> counts \<Rightarrow>
   (string \<rightharpoonup> bytes) \<times> counts" where
  "install_font fontTools replace_existing font_file st =
     (case (font_file, st) of ((font_path, data), (dest, c)) \<Rightarrow>
        (let is_variable = is_variable_font fontTools data;
             name = path_name font_path
         in if dest name \<noteq> None \<and> \<not> (replace_existing \<or> is_variable)
            then (dest, c\<lparr>skipped_count := skipped_count c + 1\<rparr>)
            else
              (let c1 = (if dest name \<noteq> None
                         then c\<lparr>replaced_count := replaced_count c + 1\<rparr>
                         else c\<lparr>installed_count := installed_count c + 1\<rparr>);
                   dest1 = dest(name \<mapsto> data);
                   c2 = (if is_variable then c1\<lparr>variable_count := variable_count c1 + 1\<rparr>
                         else c1)
               in (dest1, c2))))"

fun install_loop ::
  "(bytes \<Rightarrow> bool option) option \<Rightarrow> bool \<Rightarrow> (string \<times> bytes) list \<Rightarrow> (string \<rightharpoonup> bytes) \<times> counts \<Rightarrow>
   (string \<rightharpoonup> bytes) \<times> counts" where
  "install_loop fontTools replace_existing [] st = st"
| "install_loop fontTools replace_existing (font_file # font_files) st =
     install_loop fontTools replace_existing font_files
       (install_font fontTools replace_existing font_file st)"

definition install_fonts_from_temp ::
  "(bytes \<Rightarrow> bool option) option \<Rightarrow> bool \<Rightarrow> fs \<Rightarrow> (string \<rightharpoonup> bytes) \<Rightarrow> (string \<rightharpoonup> bytes) \<times> counts" where
  "install_fonts_from_temp fontTools replace_existing files dest =
     install_loop fontTools replace_existing (rglob_fonts fonts_dir files)
       (dest, \<lparr>installed_count = 0, replaced_count = 0, variable_count = 0, skipped_count = 0\<rparr>)"

section \<open>Example inputs\<close>

text \<open>
  A descriptor \<open>a.setting\<close> in which \<open>re.findall\<close> finds three font declarations and one
  style declaration.
\<close>

definition example_findall :: "pattern \<Rightarrow> string \<Rightarrow> string list" where
  "example_findall p content =
     (case p of Font_pattern \<Rightarrow> [''Inter'', '' Futura '', ''Arial''] | Style_pattern \<Rightarrow> [''Bold ''])"

definition example_read :: "string \<Rightarrow> read_result" where
  "example_read file_path = (if file_path = ''a.setting'' then Content ''text'' else OtherError)"

text \<open>
  Sites of which the first has nothing for any name and the other two have a download.
\<close>

definition example_sites :: sites where
  "example_sites =
     \<lparr>site_1001fonts = (\<lambda>font_name. None),
      site_dafont = (\<lambda>font_name. Some ''https://dl.dafont.com/dl/?f=proxima_nova''),
      site_freefont = (\<lambda>font_name. Some ''https://www.freefonts.io/download/proxima-nova'')\<rparr>"

text \<open>
  A server that answers every request with a page of HTML, which is neither an archive nor
  a font.
\<close>

definition example_http_get :: "string \<Rightarrow> bytes option" where
  "example_http_get request_url = Some ''<html>''"

definition example_zipfile :: "bytes \<Rightarrow> zip_outcome" where
  "example_zipfile payload = BadZipFile []"

definition example_writable :: "string \<Rightarrow> bool" where
  "example_writable path = True"

text \<open>
  A server that answers with an archive whose second member is damaged: the first member
  is written before \<open>BadZipFile\<close> is raised.
\<close>

definition example_damaged_get :: "string \<Rightarrow> bytes option" where
  "example_damaged_get request_url = Some ''PK-damaged''"

definition example_damaged_zipfile :: "bytes \<Rightarrow> zip_outcome" where
  "example_damaged_zipfile payload = BadZipFile [(''good.ttf'', ''font'')]"

text \<open>
  A server that rejects every key but \<open>key3\<close>, and the globals with the key \<open>key1\<close> set.
\<close>

definition example_server :: "string \<Rightarrow> response" where
  "example_server request_url =
     (if request_url = api_url ''key3''
      then Items [\<lparr>item_family = ''Inter'', item_variants = Some [''regular'', ''700'']\<rparr>]
      else HTTPError 403)"

definition example_globals :: globals where
  "example_globals = \<lparr>GOOGLE_API_KEY = ''key1'', GOOGLE_API_URL = api_url ''key1''\<rparr>"

section \<open>Properties of the normalisation\<close>

lemma char_lower_upper: "char_lower (char_upper c) = char_lower c"
  by (auto simp: char_lower_def char_upper_def is_upper_def is_lower_def char_code_def)

lemma str_lower_upper: "str_lower (str_upper s) = str_lower s"
  by (simp add: str_lower_def str_upper_def char_lower_upper)

lemma alnum_not_upper: "is_lower c \<or> is_digit c \<Longrightarrow> \<not> is_upper c"
  by (auto simp: is_lower_def is_digit_def is_upper_def)

lemma alnum_not_space: "is_lower c \<or> is_digit c \<Longrightarrow> \<not> is_space c"
  by (auto simp: is_lower_def is_digit_def is_space_def)

lemma alnum_word: "is_lower c \<or> is_digit c \<Longrightarrow> is_word_char c"
  by (auto simp: is_word_char_def)

lemma str_lower_alnum: "\<forall>c\<in>set s. is_lower c \<or> is_digit c \<Longrightarrow> str_lower s = s"
  by (induction s) (auto simp: str_lower_def char_lower_def alnum_not_upper)

lemma dropWhile_none: "\<forall>c\<in>set s. \<not> P c \<Longrightarrow> dropWhile P s = s"
  by (cases s) auto

lemma py_strip_none: "\<forall>c\<in>set s. \<not> is_space c \<Longrightarrow> py_strip s = s"
  by (simp add: py_strip_def dropWhile_none)

lemma py_strip_alnum: "\<forall>c\<in>set s. is_lower c \<or> is_digit c \<Longrightarrow> py_strip s = s"
  by (simp add: py_strip_none alnum_not_space)

lemma sub_non_alnum_chars: "c \<in> set (sub_non_alnum s) \<Longrightarrow> is_lower c \<or> is_digit c"
  by (simp add: sub_non_alnum_def)

text \<open>The final \<open>strip()\<close> finds nothing to remove.\<close>

lemma normalize_eq: "normalize_font_name x = sub_non_alnum (sub_name_parts False (str_lower x))"
  by (simp add: normalize_font_name_def py_strip_alnum sub_non_alnum_chars)

lemma normalize_chars: "c \<in> set (normalize_font_name x) \<Longrightarrow> is_lower c \<or> is_digit c"
  by (simp add: normalize_eq sub_non_alnum_chars)

text \<open>Inside a word there is no boundary, so nothing is removed there.\<close>

lemma sub_name_parts_inside_word:
  "\<forall>c\<in>set s. is_word_char c \<Longrightarrow> sub_name_parts True s = s"
  by (induction s) (auto simp: word_boundary_def)

text \<open>On a text that is one word, an alternative matches only when it is the whole text.\<close>

lemma match_parts_word:
  assumes "\<forall>c\<in>set s. is_word_char c" "[] \<notin> set ts"
  shows "match_parts ts s = (if s \<in> set ts then Some (length s) else None)"
  using assms(2)
proof (induction ts)
  case Nil
  then show ?case by simp
next
  case (Cons t ts)
  from Cons.prems have tne: "t \<noteq> []" by auto
  have "(take (length t) s = t \<and> word_boundary (is_word_char (last t)) (drop (length t) s))
          = (s = t)"
  proof
    assume h: "take (length t) s = t \<and> word_boundary (is_word_char (last t)) (drop (length t) s)"
    then have "last t \<in> set (take (length t) s)" using tne by simp
    then have "last t \<in> set s" by (rule in_set_takeD)
    with assms(1) have w: "is_word_char (last t)" by blast
    have "drop (length t) s = []"
    proof (cases "drop (length t) s")
      case Nil
      then show ?thesis .
    next
      case (Cons d ds)
      then have "d \<in> set (drop (length t) s)" by simp
      then have "d \<in> set s" by (rule in_set_dropD)
      with assms(1) have "is_word_char d" by blast
      with h w Cons show ?thesis by (simp add: word_boundary_def)
    qed
    with h show "s = t" by (metis append_take_drop_id append_Nil2)
  next
    assume e: "s = t"
    with tne assms(1) have "is_word_char (last t)" by simp
    with e show "take (length t) s = t \<and> word_boundary (is_word_char (last t)) (drop (length t) s)"
      by (simp add: word_boundary_def)
  qed
  with Cons show ?case by auto
qed

lemma sub_name_parts_one_word:
  assumes "\<forall>c\<in>set s. is_word_char c"
  shows "sub_name_parts False s = (if s \<in> set name_parts then [] else s)"
proof (cases s)
  case Nil
  then show ?thesis by (simp add: name_parts_def)
next
  case (Cons c cs)
  have ne: "[] \<notin> set name_parts" by (simp add: name_parts_def)
  from assms Cons have b: "word_boundary False (c # cs)" by (simp add: word_boundary_def)
  from assms Cons have cs: "\<forall>c\<in>set cs. is_word_char c" and c: "is_word_char c" by simp_all
  have m: "match_parts name_parts (c # cs) = (if s \<in> set name_parts then Some (length s) else None)"
    using match_parts_word [OF assms ne] Cons by simp
  show ?thesis
  proof (cases "s \<in> set name_parts")
    case True
    with m b Cons show ?thesis by simp
  next
    case False
    with m b Cons c cs show ?thesis by (simp add: sub_name_parts_inside_word)
  qed
qed

lemma normalize_twice:
  "normalize_font_name (normalize_font_name x) =
     (if normalize_font_name x \<in> set name_parts then [] else normalize_font_name x)"
proof -
  let ?y = "normalize_font_name x"
  have a: "\<forall>c\<in>set ?y. is_lower c \<or> is_digit c" using normalize_chars by blast
  then have w: "\<forall>c\<in>set ?y. is_word_char c" using alnum_word by blast
  have "normalize_font_name ?y = sub_non_alnum (sub_name_parts False ?y)"
    by (simp add: normalize_eq [of ?y] str_lower_alnum [OF a])
  also have "\<dots> = sub_non_alnum (if ?y \<in> set name_parts then [] else ?y)"
    by (simp only: sub_name_parts_one_word [OF w])
  also have "\<dots> = (if ?y \<in> set name_parts then [] else ?y)"
    using a by (simp add: sub_non_alnum_def)
  finally show ?thesis .
qed

lemma normalize_upper: "normalize_font_name (str_upper x) = normalize_font_name x"
  by (simp add: normalize_font_name_def str_lower_upper)

text \<open>
  Claim C2, as the code has it. Normalising twice gives the same as normalising once
  unless the normalised name is itself one of the nine removed name parts, in which case
  the second normalisation gives the empty string; and for every ASCII name, the
  normalisation of the upper-cased name is the normalisation of the name.
\<close>

theorem normalize_font_name_twice_and_case:
  "normalize_font_name (normalize_font_name x) =
     (if normalize_font_name x \<in> set name_parts then [] else normalize_font_name x)
   \<and> (list_all is_ascii x \<longrightarrow> normalize_font_name (str_upper x) = normalize_font_name x)"
  by (simp add: normalize_twice normalize_upper)

theorem normalize_font_name_twice_and_case_witness:
  "list_all is_ascii ''Arial Bold''
   \<and> normalize_font_name ''Arial Bold'' = ''arial''
   \<and> normalize_font_name (normalize_font_name ''Arial Bold'') = ''arial''
   \<and> normalize_font_name (str_upper ''Arial Bold'') = ''arial''"
proof -
  have a: "list_all is_ascii ''Arial Bold''" by code_simp
  have n: "normalize_font_name ''Arial Bold'' = ''arial''" by code_simp
  have p: "''arial'' \<notin> set name_parts" by code_simp
  from a n p normalize_font_name_twice_and_case [of "''Arial Bold''"] show ?thesis by simp
qed

text \<open>
  The claim as stated fails: the name \<open>p s\<close> has no removable part and normalises to
  \<open>ps\<close>, which is a removable part and normalises to the empty string.
\<close>

theorem normalize_font_name_not_idempotent:
  "normalize_font_name ''p s'' = ''ps''
   \<and> normalize_font_name (normalize_font_name ''p s'') = []
   \<and> normalize_font_name (normalize_font_name ''p s'') \<noteq> normalize_font_name ''p s''"
  by code_simp

section \<open>Properties of the normalised-name map\<close>

lemma scan_all_normalized_map_other:
  "\<forall>f\<in>set fonts. normalize_font_name f \<noteq> k \<Longrightarrow> scan_all_normalized_map fonts m k = m k"
  by (induction fonts arbitrary: m) (auto simp: Let_def)

lemma scan_all_normalized_map_append:
  "scan_all_normalized_map (xs @ ys) m = scan_all_normalized_map ys (scan_all_normalized_map xs m)"
  by (induction xs arbitrary: m) (auto simp: Let_def)

text \<open>
  Claim C3, as the code has it. When two distinct installed names \<open>a\<close> and \<open>b\<close> have the
  same non-empty normalised key, \<open>a\<close> is visited before \<open>b\<close>, and no name visited after
  \<open>b\<close> has that key, the map built by \<open>scan_all\<close> holds \<open>b\<close> for the key: the name seen
  last replaces the ones seen before it.
\<close>

theorem normalized_map_keeps_last:
  assumes "a \<noteq> b" and "normalize_font_name a = k" and "normalize_font_name b = k" and "k \<noteq> []"
    and "list_all (\<lambda>f. normalize_font_name f \<noteq> k) later"
  shows "scan_all_normalized_map (earlier @ a # between @ b # later) Map.empty k = Some b
         \<and> scan_all_normalized_map (earlier @ a # between @ b # later) Map.empty k \<noteq> Some a"
proof -
  let ?m = "scan_all_normalized_map (earlier @ a # between) Map.empty"
  have "scan_all_normalized_map (earlier @ a # between @ b # later) Map.empty k
          = scan_all_normalized_map later (scan_all_normalized_map [b] ?m) k"
    using scan_all_normalized_map_append [of "earlier @ a # between" "b # later" Map.empty]
      scan_all_normalized_map_append [of "[b]" later] by simp
  also have "\<dots> = scan_all_normalized_map [b] ?m k"
    using assms(5) by (simp add: scan_all_normalized_map_other list_all_iff)
  also have "\<dots> = Some b"
    using assms(3,4) by (simp add: Let_def)
  finally show ?thesis using assms(1) by simp
qed

theorem normalized_map_keeps_last_witness:
  "''Arial'' \<noteq> ''Arial Bold''
   \<and> normalize_font_name ''Arial'' = ''arial'' \<and> normalize_font_name ''Arial Bold'' = ''arial''
   \<and> list_all (\<lambda>f. normalize_font_name f \<noteq> ''arial'') [''Courier'']
   \<and> scan_all_normalized_map [''Arial'', ''Arial Bold'', ''Courier''] Map.empty ''arial''
        = Some ''Arial Bold''"
proof -
  have 1: "''Arial'' \<noteq> ''Arial Bold''" by simp
  have 2: "normalize_font_name ''Arial'' = ''arial''" by code_simp
  have 3: "normalize_font_name ''Arial Bold'' = ''arial''" by code_simp
  have 4: "''arial'' \<noteq> []" by simp
  have 5: "list_all (\<lambda>f. normalize_font_name f \<noteq> ''arial'') [''Courier'']" by code_simp
  from normalized_map_keeps_last [OF 1 2 3 4 5, of "[]" "[]"] 1 2 3 5 show ?thesis by simp
qed

text \<open>
  The claim as stated fails: with \<open>Arial\<close> visited first and \<open>Arial Bold\<close> second, both
  of key \<open>arial\<close>, the map holds \<open>Arial Bold\<close>, not the first-seen \<open>Arial\<close>.
\<close>

theorem normalized_map_first_seen_replaced:
  "''Arial'' \<noteq> ''Arial Bold''
   \<and> normalize_font_name ''Arial'' = normalize_font_name ''Arial Bold''
   \<and> scan_all_normalized_map [''Arial'', ''Arial Bold''] Map.empty (normalize_font_name ''Arial'')
        = Some ''Arial Bold''
   \<and> scan_all_normalized_map [''Arial'', ''Arial Bold''] Map.empty (normalize_font_name ''Arial'')
        \<noteq> Some ''Arial''"
  by code_simp

section \<open>Properties of the matcher\<close>

text \<open>
  Claim C6. A name that is a member of the installed set is reported found with the kind
  \<open>exact match\<close> and itself as the matched name, whatever the two maps hold; the
  case-insensitive map is consulted only for a name that is not a member, and the
  normalised map only for a name that the case-insensitive map does not have either.
\<close>

theorem match_precedence:
  assumes "r = is_font_installed font_name style system_fonts lowercase_map normalized_map
                 installed_styles"
  shows "(font_name \<in> system_fonts \<longrightarrow>
      found r \<and> match_type r = ''exact match'' \<and> matched_name r = font_name)
   \<and> (font_name \<notin> system_fonts \<and> lowercase_map (str_lower font_name) = Some n \<longrightarrow>
      found r \<and> match_type r = ''case-insensitive match'' \<and> matched_name r = n)
   \<and> (font_name \<notin> system_fonts \<and> lowercase_map (str_lower font_name) = None
        \<and> normalized_map (normalize_font_name font_name) = Some n \<longrightarrow>
      found r \<and> match_type r = ''normalized match'' \<and> matched_name r = n)
   \<and> (font_name \<notin> system_fonts \<and> lowercase_map (str_lower font_name) = None
        \<and> normalized_map (normalize_font_name font_name) = None \<longrightarrow>
      \<not> found r \<and> match_type r = [] \<and> matched_name r = [])"
  unfolding assms by (auto simp: is_font_installed_def Let_def split: option.splits)

text \<open>
  An inventory in which \<open>Arial\<close> has an exact, a case-insensitive and a normalised match, and
  three other names that reach the second strategy, the third, and none.
\<close>

theorem match_precedence_witness:
  "''Arial'' \<in> {''Arial''}
   \<and> [''arial'' \<mapsto> ''Arial''] (str_lower ''Arial'') = Some ''Arial''
   \<and> [''arial'' \<mapsto> ''Arial Bold''] (normalize_font_name ''Arial'') = Some ''Arial Bold''
   \<and> match_type (is_font_installed ''Arial'' ''Bold'' {''Arial''} [''arial'' \<mapsto> ''Arial'']
        [''arial'' \<mapsto> ''Arial Bold''] None) = ''exact match''
   \<and> ''ARIAL'' \<notin> {''Arial''}
   \<and> match_type (is_font_installed ''ARIAL'' ''Bold'' {''Arial''} [''arial'' \<mapsto> ''Arial'']
        [''arial'' \<mapsto> ''Arial Bold''] None) = ''case-insensitive match''
   \<and> ''Arial-Bold'' \<notin> {''Arial''}
   \<and> [''arial'' \<mapsto> ''Arial''] (str_lower ''Arial-Bold'') = None
   \<and> match_type (is_font_installed ''Arial-Bold'' ''Bold'' {''Arial''} [''arial'' \<mapsto> ''Arial'']
        [''arial'' \<mapsto> ''Arial Bold''] None) = ''normalized match''
   \<and> [''arial'' \<mapsto> ''Arial Bold''] (normalize_font_name ''Courier'') = None
   \<and> found (is_font_installed ''Courier'' ''Bold'' {''Arial''} [''arial'' \<mapsto> ''Arial'']
        [''arial'' \<mapsto> ''Arial Bold''] None) = False"
proof -
  have l: "str_lower ''Arial'' = ''arial''" "str_lower ''ARIAL'' = ''arial''"
    "str_lower ''Arial-Bold'' = ''arial-bold''" "str_lower ''Courier'' = ''courier''"
    by code_simp+
  have n: "normalize_font_name ''Arial'' = ''arial''" "normalize_font_name ''Arial-Bold'' = ''arial''"
    "normalize_font_name ''Courier'' = ''courier''"
    by code_simp+
  note t = match_precedence [OF refl, where system_fonts = "{''Arial''}" and style = "''Bold''"
      and lowercase_map = "[''arial'' \<mapsto> ''Arial'']"
      and normalized_map = "[''arial'' \<mapsto> ''Arial Bold'']" and installed_styles = None]
  from t [of "''Arial''" "''Arial''"] t [of "''ARIAL''" "''Arial''"]
    t [of "''Arial-Bold''" "''Arial Bold''"] t [of "''Courier''" "''x''"]
  show ?thesis by (simp add: l n)
qed

text \<open>
  Claim C7. With a style map supplied and the family found, the style flag is true exactly
  when the required style is in the style list that the map has for the matched name (the
  empty list when it has none), or \<open>Regular\<close> is in that list.
\<close>

theorem style_satisfied_iff:
  assumes "r = is_font_installed font_name style system_fonts lowercase_map normalized_map
                 (Some styles)"
    and "found r"
  shows "style_available r =
     (style \<in> set (get_styles styles (matched_name r))
      \<or> ''Regular'' \<in> set (get_styles styles (matched_name r)))"
  using assms(2) unfolding assms(1)
  by (auto simp: is_font_installed_def Let_def split: option.splits if_splits)

text \<open>
  \<open>Futura\<close> in \<open>Bold\<close> against an installed \<open>futura\<close>: satisfied when its styles are
  \<open>Regular\<close>, not satisfied when they are \<open>Light\<close>.
\<close>

theorem style_satisfied_iff_witness:
  "found (is_font_installed ''Futura'' ''Bold'' {''futura''} [''futura'' \<mapsto> ''futura'']
       Map.empty (Some [''futura'' \<mapsto> [''Regular'']]))
   \<and> matched_name (is_font_installed ''Futura'' ''Bold'' {''futura''} [''futura'' \<mapsto> ''futura'']
       Map.empty (Some [''futura'' \<mapsto> [''Regular'']])) = ''futura''
   \<and> ''Regular'' \<in> set (get_styles [''futura'' \<mapsto> [''Regular'']] ''futura'')
   \<and> style_available (is_font_installed ''Futura'' ''Bold'' {''futura''}
       [''futura'' \<mapsto> ''futura''] Map.empty (Some [''futura'' \<mapsto> [''Regular'']]))
   \<and> found (is_font_installed ''Futura'' ''Bold'' {''futura''} [''futura'' \<mapsto> ''futura'']
       Map.empty (Some [''futura'' \<mapsto> [''Light'']]))
   \<and> \<not> style_available (is_font_installed ''Futura'' ''Bold'' {''futura''}
       [''futura'' \<mapsto> ''futura''] Map.empty (Some [''futura'' \<mapsto> [''Light'']]))"
proof -
  have l: "str_lower ''Futura'' = ''futura''" by code_simp
  have f: "found (is_font_installed ''Futura'' ''Bold'' {''futura''} [''futura'' \<mapsto> ''futura'']
       Map.empty (Some [''futura'' \<mapsto> sts]))" for sts
    by (simp add: is_font_installed_def l get_styles_def)
  have m: "matched_name (is_font_installed ''Futura'' ''Bold'' {''futura''}
       [''futura'' \<mapsto> ''futura''] Map.empty (Some [''futura'' \<mapsto> sts])) = ''futura''" for sts
    by (simp add: is_font_installed_def l get_styles_def)
  from style_satisfied_iff [OF refl f [of "[''Regular'']"]]
    style_satisfied_iff [OF refl f [of "[''Light'']"]] f m
  show ?thesis by (simp add: get_styles_def)
qed

text \<open>
  Claim C10. Without a style map the style flag of the result is false, for every name,
  style and inventory: found or not, by whichever strategy.
\<close>

theorem no_style_map_no_style:
  "style_available (is_font_installed font_name style system_fonts lowercase_map normalized_map None)
     = False"
  by (auto simp: is_font_installed_def Let_def split: option.splits)

text \<open>An installed family: found, with the flag false without a style map and true with one.\<close>

theorem no_style_map_no_style_witness:
  "found (is_font_installed ''Inter'' ''Regular'' {''Inter''} Map.empty Map.empty None)
   \<and> \<not> style_available (is_font_installed ''Inter'' ''Regular'' {''Inter''} Map.empty Map.empty None)
   \<and> style_available (is_font_installed ''Inter'' ''Regular'' {''Inter''} Map.empty Map.empty
        (Some [''Inter'' \<mapsto> [''Regular'']]))"
proof -
  have "found (is_font_installed ''Inter'' ''Regular'' {''Inter''} Map.empty Map.empty None)"
    by (simp add: is_font_installed_def)
  moreover have "style_available (is_font_installed ''Inter'' ''Regular'' {''Inter''} Map.empty
      Map.empty (Some [''Inter'' \<mapsto> [''Regular'']]))"
    by (simp add: is_font_installed_def get_styles_def)
  ultimately show ?thesis
    using no_style_map_no_style [of "''Inter''" "''Regular''" "{''Inter''}" Map.empty Map.empty]
    by simp
qed

section \<open>Properties of the requirement extraction\<close>

lemma pair_fonts_length: "length (pair_fonts i matches style_matches) = length matches"
  by (induction matches arbitrary: i) (auto simp: Let_def)

lemma pair_fonts_nth:
  "j < length matches \<Longrightarrow>
   pair_fonts i matches style_matches ! j =
     (py_strip (matches ! j),
      py_strip (if i + j < length style_matches then style_matches ! (i + j) else ''Regular''))"
proof (induction matches arbitrary: i j)
  case Nil
  then show ?case by simp
next
  case (Cons font matches)
  show ?case
  proof (cases j)
    case 0
    then show ?thesis by (simp add: Let_def)
  next
    case (Suc j')
    with Cons.prems have "j' < length matches" by simp
    from Cons.IH [OF this, of "Suc i"] Suc show ?thesis by (simp add: Let_def)
  qed
qed

lemma py_strip_Regular: "py_strip ''Regular'' = ''Regular''"
  by code_simp

text \<open>
  Claim C9. When the descriptor can be read (as UTF-8, or as Latin-1 after UTF-8 decoding
  failed), the extractor returns one pair for each extracted family, in order: the family
  at index \<open>i\<close>, stripped, with the extracted style at index \<open>i\<close>, stripped, when there is
  one, and with \<open>Regular\<close> when \<open>i\<close> is at or beyond the number of extracted styles.
\<close>

theorem fonts_paired_by_position:
  assumes "read_utf file_path = Content content
           \<or> (read_utf file_path = UnicodeDecodeError \<and> read_latin file_path = Content content)"
    and "fonts = parse_fonts_from_setting findall read_utf read_latin file_path"
    and "matches = findall Font_pattern content"
    and "style_matches = findall Style_pattern content"
  shows "length fonts = length matches
     \<and> (\<forall>i < length matches.
          fst (fonts ! i) = py_strip (matches ! i)
          \<and> (i < length style_matches \<longrightarrow> snd (fonts ! i) = py_strip (style_matches ! i))
          \<and> (length style_matches \<le> i \<longrightarrow> snd (fonts ! i) = ''Regular''))"
proof -
  from assms(1,2) have "fonts = extract_fonts findall content"
    by (auto simp: parse_fonts_from_setting_def)
  then have f: "fonts = pair_fonts 0 matches style_matches"
    by (simp add: extract_fonts_def assms(3,4))
  show ?thesis
    unfolding f by (simp add: pair_fonts_length pair_fonts_nth py_strip_Regular)
qed

text \<open>Three families and one style: the second and the third family get \<open>Regular\<close>.\<close>

theorem fonts_paired_by_position_witness:
  "example_read ''a.setting'' = Content ''text''
   \<and> example_findall Font_pattern ''text'' = [''Inter'', '' Futura '', ''Arial'']
   \<and> example_findall Style_pattern ''text'' = [''Bold '']
   \<and> parse_fonts_from_setting example_findall example_read example_read ''a.setting''
     = [(''Inter'', ''Bold''), (''Futura'', ''Regular''), (''Arial'', ''Regular'')]
   \<and> snd (parse_fonts_from_setting example_findall example_read example_read ''a.setting'' ! 0)
       = ''Bold''
   \<and> snd (parse_fonts_from_setting example_findall example_read example_read ''a.setting'' ! 2)
       = ''Regular''"
proof -
  let ?fonts = "parse_fonts_from_setting example_findall example_read example_read ''a.setting''"
  have m: "example_findall Font_pattern ''text'' = [''Inter'', '' Futura '', ''Arial'']"
    and s: "example_findall Style_pattern ''text'' = [''Bold '']"
    by (simp_all add: example_findall_def)
  have st: "py_strip ''Inter'' = ''Inter''" "py_strip '' Futura '' = ''Futura''"
     "py_strip ''Arial'' = ''Arial''" "py_strip ''Bold '' = ''Bold''"
     "py_strip ''Regular'' = ''Regular''"
    by code_simp+
  have c: "example_read ''a.setting'' = Content ''text''"
    by (simp add: example_read_def)
  have e: "?fonts = [(''Inter'', ''Bold''), (''Futura'', ''Regular''), (''Arial'', ''Regular'')]"
    by (simp add: parse_fonts_from_setting_def extract_fonts_def c m s st)
  note t = fonts_paired_by_position [where read_utf = example_read and read_latin = example_read
      and file_path = "''a.setting''" and content = "''text''" and findall = example_findall,
      OF disjI1 [OF c] refl m [symmetric] s [symmetric], THEN conjunct2, rule_format]
  from t [of 0] have 0: "snd (?fonts ! 0) = ''Bold''" by (simp add: st)
  from t [of 2] have 2: "snd (?fonts ! 2) = ''Regular''" by simp
  from c e m s 0 2 show ?thesis by simp
qed

section \<open>Properties of the provider chain\<close>

text \<open>
  Claim C5. For every family name, the providers consulted by the chain are a prefix of
  1001Fonts, DaFont, FreeFonts.io, in that order, of some length \<open>n\<close> between 1 and 3. The
  first \<open>n - 1\<close> of them gave no URL. A returned reference carries the URL given by the
  \<open>n\<close>-th provider and that provider's label, so that no provider behind the one that
  answered is consulted; nothing is returned only when all three were consulted and none
  gave a URL.
\<close>

theorem chain_first_success:
  assumes "search_alternative_font_providers w font_name consulted = (result, consulted')"
  shows "\<exists>n. 1 \<le> n \<and> n \<le> 3
     \<and> consulted' = consulted @ take n provider_order
     \<and> list_all (\<lambda>label. \<not> truthy (site_answer w label font_name)) (take (n - 1) provider_order)
     \<and> (case result of
          Some alt \<Rightarrow> source alt = provider_order ! (n - 1)
                      \<and> site_answer w (source alt) font_name = Some (url alt) \<and> url alt \<noteq> []
        | None \<Rightarrow> n = 3 \<and> \<not> truthy (site_answer w (provider_order ! 2) font_name))"
proof -
  consider (a) "truthy (site_1001fonts w font_name)"
    | (b) "\<not> truthy (site_1001fonts w font_name)" "truthy (site_dafont w font_name)"
    | (c) "\<not> truthy (site_1001fonts w font_name)" "\<not> truthy (site_dafont w font_name)"
          "truthy (site_freefont w font_name)"
    | (d) "\<not> truthy (site_1001fonts w font_name)" "\<not> truthy (site_dafont w font_name)"
          "\<not> truthy (site_freefont w font_name)"
    by blast
  then show ?thesis
  proof cases
    case a
    with assms show ?thesis
      by (intro exI [of _ 1])
        (auto simp: search_alternative_font_providers_def search_1001fonts_def provider_order_def
          site_answer_def truthy_def split: option.splits)
  next
    case b
    with assms show ?thesis
      by (intro exI [of _ 2])
        (auto simp: search_alternative_font_providers_def search_1001fonts_def search_dafont_def
          provider_order_def site_answer_def truthy_def split: option.splits)
  next
    case c
    with assms show ?thesis
      by (intro exI [of _ 3])
        (auto simp: search_alternative_font_providers_def search_1001fonts_def search_dafont_def
          search_freefont_def provider_order_def site_answer_def truthy_def split: option.splits)
  next
    case d
    with assms show ?thesis
      by (intro exI [of _ 3])
        (auto simp: search_alternative_font_providers_def search_1001fonts_def search_dafont_def
          search_freefont_def provider_order_def site_answer_def truthy_def split: option.splits)
  qed
qed

text \<open>The first site has nothing and the second answers: the third is not consulted.\<close>

theorem chain_first_success_witness:
  "search_alternative_font_providers example_sites ''Proxima Nova'' [] =
     (Some \<lparr>url = ''https://dl.dafont.com/dl/?f=proxima_nova'', source = ''DaFont''\<rparr>,
      [''1001Fonts'', ''DaFont''])
   \<and> truthy (site_answer example_sites ''FreeFonts.io'' ''Proxima Nova'')
   \<and> ''FreeFonts.io'' \<notin> set (snd (search_alternative_font_providers example_sites
         ''Proxima Nova'' []))"
proof -
  have e: "search_alternative_font_providers example_sites ''Proxima Nova'' [] =
     (Some \<lparr>url = ''https://dl.dafont.com/dl/?f=proxima_nova'', source = ''DaFont''\<rparr>,
      [''1001Fonts'', ''DaFont''])"
    by (simp add: search_alternative_font_providers_def search_1001fonts_def search_dafont_def
        example_sites_def truthy_def)
  from chain_first_success [OF e]
  have "\<exists>n. 1 \<le> n \<and> n \<le> 3 \<and> [''1001Fonts'', ''DaFont''] = take n provider_order"
    by auto
  with e show ?thesis
    by (simp add: site_answer_def example_sites_def truthy_def)
qed

section \<open>Properties of the installer\<close>

lemma install_loop_append:
  "install_loop fontTools replace_existing (xs @ ys) st =
     install_loop fontTools replace_existing ys (install_loop fontTools replace_existing xs st)"
  by (induction xs arbitrary: st) auto

text \<open>
  Claim C8. Take any staged font of an install run, with the destination directory and the
  counters as the fonts before it have left them. If a file of its name exists at the
  destination, the font is not variable and \<open>replace_existing\<close> is false, the destination
  is unchanged and the skip counter goes up by one. If a file of its name exists and the
  font is variable or \<open>replace_existing\<close> is true, the file is overwritten with the staged
  data and the replace counter goes up by one. If no file of its name exists, the staged
  data is installed and the installed counter goes up by one. In each case the other two of
  the three counters keep their values, and the run goes on with the fonts behind it.
\<close>

theorem install_font_policy:
  assumes "rglob_fonts fonts_dir files = before @ (font_path, data) # after"
    and "install_loop fontTools replace_existing before
           (dest0, \<lparr>installed_count = 0, replaced_count = 0, variable_count = 0,
              skipped_count = 0\<rparr>) = (dest, c)"
    and "install_font fontTools replace_existing (font_path, data) (dest, c) = (dest', c')"
    and "name = path_name font_path"
  shows "install_fonts_from_temp fontTools replace_existing files dest0
           = install_loop fontTools replace_existing after (dest', c')
       \<and> (dest name \<noteq> None \<and> \<not> is_variable_font fontTools data \<and> \<not> replace_existing \<longrightarrow>
            dest' = dest \<and> skipped_count c' = skipped_count c + 1
            \<and> replaced_count c' = replaced_count c \<and> installed_count c' = installed_count c)
       \<and> (dest name \<noteq> None \<and> (is_variable_font fontTools data \<or> replace_existing) \<longrightarrow>
            dest' = dest(name \<mapsto> data) \<and> replaced_count c' = replaced_count c + 1
            \<and> skipped_count c' = skipped_count c \<and> installed_count c' = installed_count c)
       \<and> (dest name = None \<longrightarrow>
            dest' = dest(name \<mapsto> data) \<and> installed_count c' = installed_count c + 1
            \<and> skipped_count c' = skipped_count c \<and> replaced_count c' = replaced_count c)"
proof -
  have "install_fonts_from_temp fontTools replace_existing files dest0
           = install_loop fontTools replace_existing after (dest', c')"
    using assms(1,2,3)
    by (simp add: install_fonts_from_temp_def install_loop_append)
  moreover have "dest name \<noteq> None \<and> \<not> is_variable_font fontTools data \<and> \<not> replace_existing \<longrightarrow>
            dest' = dest \<and> skipped_count c' = skipped_count c + 1
            \<and> replaced_count c' = replaced_count c \<and> installed_count c' = installed_count c"
    using assms(3,4) by (auto simp: install_font_def Let_def split: if_splits)
  moreover have "dest name \<noteq> None \<and> (is_variable_font fontTools data \<or> replace_existing) \<longrightarrow>
            dest' = dest(name \<mapsto> data) \<and> replaced_count c' = replaced_count c + 1
            \<and> skipped_count c' = skipped_count c \<and> installed_count c' = installed_count c"
    using assms(3,4) by (auto simp: install_font_def Let_def split: if_splits)
  moreover have "dest name = None \<longrightarrow>
            dest' = dest(name \<mapsto> data) \<and> installed_count c' = installed_count c + 1
            \<and> skipped_count c' = skipped_count c \<and> replaced_count c' = replaced_count c"
    using assms(3,4) by (auto simp: install_font_def Let_def split: if_splits)
  ultimately show ?thesis by blast
qed

text \<open>
  One staged font \<open>c.otf\<close>, not variable: skipped when it exists and nothing asks for
  replacement, replaced when it exists and replacement is asked for, installed when it does
  not exist.
\<close>

theorem install_font_policy_witness:
  "rglob_fonts fonts_dir [(''temp/fonts/c.otf'', ''new'')] = [(''temp/fonts/c.otf'', ''new'')]
   \<and> path_name ''temp/fonts/c.otf'' = ''c.otf''
   \<and> \<not> is_variable_font None ''new''
   \<and> fst (install_fonts_from_temp None False [(''temp/fonts/c.otf'', ''new'')]
        [''c.otf'' \<mapsto> ''old'']) ''c.otf'' = Some ''old''
   \<and> skipped_count (snd (install_fonts_from_temp None False [(''temp/fonts/c.otf'', ''new'')]
        [''c.otf'' \<mapsto> ''old''])) = 1
   \<and> fst (install_fonts_from_temp None True [(''temp/fonts/c.otf'', ''new'')]
        [''c.otf'' \<mapsto> ''old'']) ''c.otf'' = Some ''new''
   \<and> replaced_count (snd (install_fonts_from_temp None True [(''temp/fonts/c.otf'', ''new'')]
        [''c.otf'' \<mapsto> ''old''])) = 1
   \<and> fst (install_fonts_from_temp None False [(''temp/fonts/c.otf'', ''new'')] Map.empty)
        ''c.otf'' = Some ''new''
   \<and> installed_count (snd (install_fonts_from_temp None False [(''temp/fonts/c.otf'', ''new'')]
        Map.empty)) = 1"
proof -
  let ?z = "\<lparr>installed_count = 0, replaced_count = 0, variable_count = 0, skipped_count = 0\<rparr>"
  have g: "rglob_fonts fonts_dir [(''temp/fonts/c.otf'', ''new'')] = [] @ (''temp/fonts/c.otf'', ''new'') # []"
    by code_simp
  have p: "path_name ''temp/fonts/c.otf'' = ''c.otf''" by code_simp
  have v: "\<not> is_variable_font None ''new''" by code_simp
  have l: "install_loop None r [] (d, ?z) = (d, ?z)" for r d by simp
  have s: "install_font None r f st = (fst (install_font None r f st), snd (install_font None r f st))"
    for r f st by simp
  note t = install_font_policy [OF g l s p [symmetric]]
  from t [of False "[''c.otf'' \<mapsto> ''old'']"] t [of True "[''c.otf'' \<mapsto> ''old'']"]
    t [of False Map.empty] g p v
  show ?thesis by simp
qed

section \<open>Properties of the acquisition\<close>

lemma not_font_path_zip: "\<not> is_font_path dir (path_join d (n @ ''.zip''))"
  by (simp add: is_font_path_def ends_with_def path_join_def)

lemma rglob_fonts_write_other:
  "\<not> is_font_path dir path \<Longrightarrow> rglob_fonts dir (fs_write path content files) = rglob_fonts dir files"
proof -
  assume n: "\<not> is_font_path dir path"
  have "filter (\<lambda>(p, _). is_font_path dir p) (filter (\<lambda>(p, _). p \<noteq> path) files)
          = filter (\<lambda>(p, _). is_font_path dir p) files"
    using n by (induction files) auto
  with n show ?thesis by (simp add: rglob_fonts_def fs_write_def fs_unlink_def)
qed

lemma fs_read_write: "fs_read (fs_write p c files) q = (if q = p then Some c else fs_read files q)"
  by (induction files) (auto simp: fs_read_def fs_write_def fs_unlink_def)

lemma fs_read_unlink: "fs_read (fs_unlink p files) q = (if q = p then None else fs_read files q)"
  by (induction files) (auto simp: fs_read_def fs_unlink_def)

lemma download_path_not_font_path:
  "path_join TEMP_DIR (family @ ''.download'') \<noteq> path_join fonts_dir (family @ ''.ttf'')"
proof
  assume "path_join TEMP_DIR (family @ ''.download'') = path_join fonts_dir (family @ ''.ttf'')"
  then have "last (path_join TEMP_DIR (family @ ''.download''))
     = last (path_join fonts_dir (family @ ''.ttf''))" by simp
  then show False by (simp add: path_join_def)
qed

text \<open>
  A payload that is no archive at all and has neither signature. The download from an
  alternative source rejects it: it returns \<open>False\<close>, and the font files of the staging
  fonts directory are the ones that were there before.
\<close>

lemma alternative_source_rejects_unrecognized:
  assumes "http_get (url source_info) = Some payload"
    and "writable (path_join TEMP_DIR (font_name @ ''_'' @ source source_info @ ''.zip''))"
    and "zipfile payload = BadZipFile []"
    and "\<not> starts_with OTTO (take 4 payload)" and "\<not> starts_with TRUETYPE (take 4 payload)"
  shows "\<exists>files'. download_font_from_alternative_source http_get zipfile writable font_name
            source_info files = (False, files')
          \<and> rglob_fonts fonts_dir files' = rglob_fonts fonts_dir files"
proof -
  let ?p = "path_join TEMP_DIR (font_name @ ''_'' @ source source_info @ ''.zip'')"
  have "download_font_from_alternative_source http_get zipfile writable font_name source_info files
          = (False, fs_write ?p payload files)"
    using assms by (simp add: download_font_from_alternative_source_def Let_def fs_read_write)
  moreover have "\<not> is_font_path fonts_dir ?p"
    using not_font_path_zip [of fonts_dir TEMP_DIR "font_name @ ''_'' @ source source_info"]
    by simp
  ultimately show ?thesis by (simp add: rglob_fonts_write_other)
qed

text \<open>
  The download from the indexed source has no such test: the same payload is staged under
  the default extension, as the family name with \<open>.ttf\<close>, and the function returns \<open>True\<close>.
\<close>

lemma google_font_stages_unrecognized:
  assumes "http_get (''https://fonts.google.com/download?family='' @ replace_spaces family)
             = Some payload"
    and "writable (path_join TEMP_DIR (family @ ''.download''))"
    and "writable (path_join fonts_dir (family @ ''.ttf''))"
    and "zipfile payload = BadZipFile []"
    and "\<not> starts_with OTTO (take 4 payload)" and "\<not> starts_with TRUETYPE (take 4 payload)"
  shows "\<exists>files'. download_google_font http_get zipfile writable family files = (True, files')
          \<and> fs_read files' (path_join fonts_dir (family @ ''.ttf'')) = Some payload"
proof -
  let ?d = "path_join TEMP_DIR (family @ ''.download'')"
  let ?f = "path_join fonts_dir (family @ ''.ttf'')"
  have "download_google_font http_get zipfile writable family files
          = (True, fs_unlink ?d (fs_write ?f payload (fs_write ?d payload files)))"
    using assms by (simp add: download_google_font_def Let_def fs_read_write)
  moreover have "fs_read (fs_unlink ?d (fs_write ?f payload (fs_write ?d payload files))) ?f
     = Some payload"
    using download_path_not_font_path [of family]
    by (simp add: fs_read_unlink fs_read_write)
  ultimately show ?thesis by simp
qed

text \<open>
  Claim C1 says that a payload which fails archive extraction and begins with neither
  \<open>OTTO\<close> nor the bytes 00 01 00 00 makes the acquisition fail: no font file is staged
  and the download function returns failure. The code does this in
  \<open>download_font_from_alternative_source\<close> and not in \<open>download_google_font\<close>: for a page
  of HTML that is no archive, with an empty staging area, \<open>download_google_font\<close> stages
  the page as \<open>temp/fonts/Inter.ttf\<close> and returns \<open>True\<close>, where the download from an
  alternative source returns \<open>False\<close> and stages no font.
\<close>

theorem unrecognized_payload_staged_by_google:
  "example_http_get (''https://fonts.google.com/download?family='' @ replace_spaces ''Inter'')
     = Some ''<html>''
   \<and> example_zipfile ''<html>'' = BadZipFile []
   \<and> \<not> starts_with OTTO (take 4 ''<html>'') \<and> \<not> starts_with TRUETYPE (take 4 ''<html>'')
   \<and> download_google_font example_http_get example_zipfile example_writable ''Inter'' []
       = (True, [(''temp/fonts/Inter.ttf'', ''<html>'')])
   \<and> rglob_fonts fonts_dir
        (snd (download_google_font example_http_get example_zipfile example_writable ''Inter'' []))
       = [(''temp/fonts/Inter.ttf'', ''<html>'')]
   \<and> download_font_from_alternative_source example_http_get example_zipfile example_writable
        ''Inter'' \<lparr>url = ''https://dl.dafont.com/dl/?f=inter'', source = ''DaFont''\<rparr> []
       = (False, [(''temp/Inter_DaFont.zip'', ''<html>'')])
   \<and> rglob_fonts fonts_dir
        (snd (download_font_from_alternative_source example_http_get example_zipfile
           example_writable ''Inter''
           \<lparr>url = ''https://dl.dafont.com/dl/?f=inter'', source = ''DaFont''\<rparr> []))
       = []"
  by code_simp

text \<open>
  Extraction runs inside the \<open>try\<close>, so an archive that is found damaged at its second
  member has its first member staged already when \<open>BadZipFile\<close> is raised. The download
  from an alternative source then returns \<open>False\<close> with that member left in the staging
  fonts directory, and \<open>download_google_font\<close> stages the archive itself as a font beside
  it and returns \<open>True\<close>.
\<close>

lemma damaged_archive_leaves_members:
  "example_damaged_zipfile ''PK-damaged'' = BadZipFile [(''good.ttf'', ''font'')]
   \<and> \<not> starts_with OTTO (take 4 ''PK-damaged'') \<and> \<not> starts_with TRUETYPE (take 4 ''PK-damaged'')
   \<and> download_font_from_alternative_source example_damaged_get example_damaged_zipfile
        example_writable ''Inter''
        \<lparr>url = ''https://dl.dafont.com/dl/?f=inter'', source = ''DaFont''\<rparr> []
       = (False, [(''temp/fonts/good.ttf'', ''font''), (''temp/Inter_DaFont.zip'', ''PK-damaged'')])
   \<and> download_google_font example_damaged_get example_damaged_zipfile example_writable ''Inter'' []
       = (True, [(''temp/fonts/Inter.ttf'', ''PK-damaged''), (''temp/fonts/good.ttf'', ''font'')])"
  by code_simp

text \<open>
  Failures inside the outer \<open>try\<close> end in \<open>return False\<close>: a download file that cannot be
  created, and an extraction that raises another exception than \<open>BadZipFile\<close>, which
  leaves the members written until then.
\<close>

lemma download_google_font_fails:
  "http_get (''https://fonts.google.com/download?family='' @ replace_spaces family) = Some payload
   \<Longrightarrow> \<not> writable (path_join TEMP_DIR (family @ ''.download''))
   \<Longrightarrow> download_google_font http_get zipfile writable family files = (False, files)"
  "http_get (''https://fonts.google.com/download?family='' @ replace_spaces family) = Some payload
   \<Longrightarrow> writable (path_join TEMP_DIR (family @ ''.download''))
   \<Longrightarrow> zipfile payload = Zip_error members
   \<Longrightarrow> download_google_font http_get zipfile writable family files =
         (False, extractall fonts_dir members
                   (fs_write (path_join TEMP_DIR (family @ ''.download'')) payload files))"
  by (simp_all add: download_google_font_def Let_def)

section \<open>Properties of the indexed source\<close>

lemma index_fetched:
  "GOOGLE_API_KEY g \<noteq> [] \<Longrightarrow> server (GOOGLE_API_URL g) = Items fonts \<Longrightarrow>
   get_google_fonts_index server g stdin requests =
     (Index (index_of fonts Map.empty), g, stdin, requests @ [GOOGLE_API_URL g])"
  by (subst get_google_fonts_index.simps) simp

lemma index_retry:
  "GOOGLE_API_KEY g \<noteq> [] \<Longrightarrow> server (GOOGLE_API_URL g) = HTTPError 403 \<Longrightarrow>
   py_strip line \<noteq> [] \<Longrightarrow>
   get_google_fonts_index server g (line # rest) requests =
     get_google_fonts_index server
       (g\<lparr>GOOGLE_API_KEY := py_strip line, GOOGLE_API_URL := api_url (py_strip line)\<rparr>)
       rest (requests @ [GOOGLE_API_URL g])"
  by (subst get_google_fonts_index.simps) (simp add: Let_def)

lemma index_abandoned:
  "GOOGLE_API_KEY g \<noteq> [] \<Longrightarrow> server (GOOGLE_API_URL g) = HTTPError 403 \<Longrightarrow>
   py_strip line = [] \<Longrightarrow>
   get_google_fonts_index server g (line # rest) requests =
     (Index Map.empty, g, rest, requests @ [GOOGLE_API_URL g])"
  by (subst get_google_fonts_index.simps) (simp add: Let_def)

text \<open>
  Any number of rejected keys, each followed by a replacement key that is not empty, and
  then an accepted key: the index is fetched with one request for each key.
\<close>

lemma index_retries:
  assumes "list_all (\<lambda>line. py_strip line \<noteq> []) lines"
    and "GOOGLE_API_KEY g \<noteq> []"
    and "list_all (\<lambda>u. server u = HTTPError 403)
           (butlast (GOOGLE_API_URL g # map (\<lambda>line. api_url (py_strip line)) lines))"
    and "server (last (GOOGLE_API_URL g # map (\<lambda>line. api_url (py_strip line)) lines))
           = Items fonts"
  shows "\<exists>g'. get_google_fonts_index server g (lines @ rest) requests =
       (Index (index_of fonts Map.empty), g', rest,
        requests @ GOOGLE_API_URL g # map (\<lambda>line. api_url (py_strip line)) lines)"
  using assms
proof (induction lines arbitrary: g requests)
  case Nil
  then show ?case by (simp add: index_fetched)
next
  case (Cons line lines)
  let ?g = "g\<lparr>GOOGLE_API_KEY := py_strip line, GOOGLE_API_URL := api_url (py_strip line)\<rparr>"
  from Cons.prems have s: "py_strip line \<noteq> []" and r: "server (GOOGLE_API_URL g) = HTTPError 403"
    by simp_all
  have "\<exists>g'. get_google_fonts_index server ?g (lines @ rest) (requests @ [GOOGLE_API_URL g]) =
       (Index (index_of fonts Map.empty), g', rest,
        (requests @ [GOOGLE_API_URL g]) @ GOOGLE_API_URL ?g
          # map (\<lambda>line. api_url (py_strip line)) lines)"
    using Cons.prems by (intro Cons.IH) simp_all
  with s r Cons.prems(2) show ?case
    by (simp add: index_retry)
qed

text \<open>
  Claim C4, as the code has it, with the key set when the index is fetched. Whenever the
  fetch fails with status 403 and the line then entered is a key that is not empty, the
  fetch is made again with that key, and this repeats: for a list of replacement keys of
  any length, when the first key and every replacement but the last are rejected with 403
  and the last is accepted, the index of the accepted key is returned after one request for
  each key. When the fetch fails with 403 and the line entered is empty, the index is
  empty and no further request is made. With an empty index, every missing family is
  looked for in the provider chain.
\<close>

theorem index_fetch_retried_on_every_rejection:
  assumes "GOOGLE_API_KEY g \<noteq> []"
  shows "(list_all (\<lambda>line. py_strip line \<noteq> []) lines
          \<and> list_all (\<lambda>u. server u = HTTPError 403)
               (butlast (GOOGLE_API_URL g # map (\<lambda>line. api_url (py_strip line)) lines))
          \<and> server (last (GOOGLE_API_URL g # map (\<lambda>line. api_url (py_strip line)) lines))
               = Items fonts \<longrightarrow>
          (\<exists>g'. get_google_fonts_index server g (lines @ rest) requests =
             (Index (index_of fonts Map.empty), g', rest,
              requests @ GOOGLE_API_URL g # map (\<lambda>line. api_url (py_strip line)) lines)))
       \<and> (server (GOOGLE_API_URL g) = HTTPError 403 \<and> py_strip line = [] \<longrightarrow>
            get_google_fonts_index server g (line # rest) requests =
              (Index Map.empty, g, rest, requests @ [GOOGLE_API_URL g]))
       \<and> resolve_missing Map.empty w font consulted =
            (case search_alternative_font_providers w font consulted of
               (Some alt, consulted') \<Rightarrow> (Alternative alt, consulted')
             | (None, consulted') \<Rightarrow> (Unavailable, consulted'))"
  using assms index_retries [of lines g server fonts rest requests]
  by (simp add: index_abandoned resolve_missing_def)

text \<open>
  The key \<open>key1\<close> and the replacement \<open>key2\<close> are rejected and the replacement \<open>key3\<close> is
  accepted: three requests. With an empty line after the first rejection: one request, an
  empty index, and the family found by the chain.
\<close>

theorem index_fetch_retried_on_every_rejection_witness:
  "GOOGLE_API_KEY example_globals \<noteq> []
   \<and> list_all (\<lambda>line. py_strip line \<noteq> []) [''key2'', ''key3'']
   \<and> list_all (\<lambda>u. example_server u = HTTPError 403) [api_url ''key1'', api_url ''key2'']
   \<and> example_server (api_url ''key3'')
        = Items [\<lparr>item_family = ''Inter'', item_variants = Some [''regular'', ''700'']\<rparr>]
   \<and> snd (snd (snd (get_google_fonts_index example_server example_globals
        [''key2'', ''key3'', ''y''] []))) = [api_url ''key1'', api_url ''key2'', api_url ''key3'']
   \<and> fst (snd (snd (get_google_fonts_index example_server example_globals
        [''key2'', ''key3'', ''y''] []))) = [''y'']
   \<and> snd (snd (snd (get_google_fonts_index example_server example_globals ['' '', ''key3''] [])))
        = [api_url ''key1'']
   \<and> fst (resolve_missing Map.empty example_sites ''Proxima Nova'' [])
        = Alternative \<lparr>url = ''https://dl.dafont.com/dl/?f=proxima_nova'', source = ''DaFont''\<rparr>"
proof -
  have k: "GOOGLE_API_KEY example_globals \<noteq> []" by (simp add: example_globals_def)
  have u: "GOOGLE_API_URL example_globals = api_url ''key1''" by (simp add: example_globals_def)
  have s: "py_strip ''key2'' = ''key2''" "py_strip ''key3'' = ''key3''" "py_strip '' '' = []"
    by code_simp+
  have a: "api_url ''key1'' \<noteq> api_url ''key3''" "api_url ''key2'' \<noteq> api_url ''key3''"
    by (simp_all add: api_url_def)
  have r: "example_server (api_url ''key1'') = HTTPError 403"
    "example_server (api_url ''key2'') = HTTPError 403"
    "example_server (api_url ''key3'')
       = Items [\<lparr>item_family = ''Inter'', item_variants = Some [''regular'', ''700'']\<rparr>]"
    using a by (simp_all add: example_server_def)
  have c: "search_alternative_font_providers example_sites ''Proxima Nova'' [] =
     (Some \<lparr>url = ''https://dl.dafont.com/dl/?f=proxima_nova'', source = ''DaFont''\<rparr>,
      [''1001Fonts'', ''DaFont''])"
    by (simp add: search_alternative_font_providers_def search_1001fonts_def search_dafont_def
        example_sites_def truthy_def)
  note t = index_fetch_retried_on_every_rejection [OF k, where server = example_server
      and w = example_sites and font = "''Proxima Nova''" and consulted = "[]"
      and requests = "[]"]
  from t [where lines = "[''key2'', ''key3'']" and rest = "[''y'']" and line = "'' ''"
      and fonts = "[\<lparr>item_family = ''Inter'', item_variants = Some [''regular'', ''700'']\<rparr>]"]
    t [where line = "'' ''" and rest = "[''key3'']" and lines = "[]" and fonts = "[]"]
    k u s r c
  show ?thesis by auto
qed

text \<open>
  The claim as stated fails: after the first replacement key \<open>key2\<close> is rejected too, the
  function asks again and makes a third request with \<open>key3\<close>, and returns its index.
\<close>

theorem index_fetch_retried_twice:
  "GOOGLE_API_KEY example_globals = ''key1''
   \<and> example_server (api_url ''key1'') = HTTPError 403
   \<and> example_server (api_url ''key2'') = HTTPError 403
   \<and> snd (snd (snd (get_google_fonts_index example_server example_globals [''key2'', ''key3''] [])))
       = [api_url ''key1'', api_url ''key2'', api_url ''key3'']
   \<and> (case fst (get_google_fonts_index example_server example_globals [''key2'', ''key3''] []) of
         Index google_fonts_index \<Rightarrow> get_available_variants ''Inter'' google_fonts_index
       | _ \<Rightarrow> []) = [''regular'', ''700'']"
  by code_simp

end
